theory Spec2Isabelle
  imports Complex_Main "HOL-Library.Char_ord" "HOL-Library.List_Lexorder"
begin

section \<open>Python values, dictionaries and errors\<close>

text \<open>
  The dashboard components handled by \<^verbatim>\<open>utils/layout.py\<close> are Python dictionaries
  of type \<^verbatim>\<open>Dict[str, Any]\<close>. A value is \<^verbatim>\<open>None\<close>, a number (Python's
  \<^verbatim>\<open>bool\<close>, \<^verbatim>\<open>int\<close> and finite \<^verbatim>\<open>float\<close> compare and hash alike when they are
  equal, so they are one constructor), a string, a list or a nested dictionary. A
  dictionary is an association list in insertion order; a lookup takes the first binding.
\<close>

datatype pyval =
    VNone
  | VNum real
  | VStr string
  | VList "pyval list"
  | VDict "(string \<times> pyval) list"

type_synonym pydict = "(string \<times> pyval) list"

datatype py_error = KeyError | TypeError | AttributeError | ValueError | ZeroDivisionError

text \<open>Lists and dictionaries are unhashable: using one as a dictionary key raises TypeError.\<close>

fun hashable :: "pyval \<Rightarrow> bool" where
  "hashable (VList xs) = False"
| "hashable (VDict d) = False"
| "hashable v = True"

text \<open>\<^verbatim>\<open>d.get(k, default)\<close> and \<^verbatim>\<open>d[k]\<close>.\<close>

definition dict_get :: "pydict \<Rightarrow> string \<Rightarrow> pyval \<Rightarrow> pyval" where
  "dict_get d k dflt = (case map_of d k of None \<Rightarrow> dflt | Some v \<Rightarrow> v)"

definition dict_item :: "pydict \<Rightarrow> string \<Rightarrow> py_error + pyval" where
  "dict_item d k = (case map_of d k of None \<Rightarrow> Inl KeyError | Some v \<Rightarrow> Inr v)"

text \<open>Sequencing of computations that may raise.\<close>

definition bind_err :: "py_error + 'a \<Rightarrow> ('a \<Rightarrow> py_error + 'b) \<Rightarrow> py_error + 'b" where
  "bind_err m f = (case m of Inl e \<Rightarrow> Inl e | Inr x \<Rightarrow> f x)"

fun map_err :: "('a \<Rightarrow> py_error + 'b) \<Rightarrow> 'a list \<Rightarrow> py_error + 'b list" where
  "map_err f [] = Inr []"
| "map_err f (x # xs) =
     (case f x of
        Inl e \<Rightarrow> Inl e
      | Inr y \<Rightarrow> (case map_err f xs of Inl e \<Rightarrow> Inl e | Inr ys \<Rightarrow> Inr (y # ys)))"

subsection \<open>Strings\<close>

text \<open>
  Strings are lists of 8-bit characters, so the string functions below are those of
  Python on ASCII text: \<^verbatim>\<open>str.replace\<close> of one character, \<^verbatim>\<open>str.title\<close>,
  \<^verbatim>\<open>str.lower\<close>, \<^verbatim>\<open>str.strip\<close>, and the decimal text of a natural number.
\<close>

definition is_upper :: "char \<Rightarrow> bool" where
  "is_upper c = (CHR ''A'' \<le> c \<and> c \<le> CHR ''Z'')"

definition is_lower :: "char \<Rightarrow> bool" where
  "is_lower c = (CHR ''a'' \<le> c \<and> c \<le> CHR ''z'')"

definition is_alpha :: "char \<Rightarrow> bool" where
  "is_alpha c = (is_upper c \<or> is_lower c)"

definition is_digit :: "char \<Rightarrow> bool" where
  "is_digit c = (CHR ''0'' \<le> c \<and> c \<le> CHR ''9'')"

definition to_upper :: "char \<Rightarrow> char" where
  "to_upper c = (if is_lower c then char_of (of_char c - (32::nat)) else c)"

definition to_lower :: "char \<Rightarrow> char" where
  "to_lower c = (if is_upper c then char_of (of_char c + (32::nat)) else c)"

definition py_lower :: "string \<Rightarrow> string" where
  "py_lower s = map to_lower s"

definition py_replace :: "char \<Rightarrow> char \<Rightarrow> string \<Rightarrow> string" where
  "py_replace a b s = map (\<lambda>c. if c = a then b else c) s"

text \<open>
  \<^verbatim>\<open>str.title\<close>: a letter that follows a letter is lower-cased, any other letter is
  upper-cased, every other character is kept and ends the word.
\<close>

fun title_from :: "bool \<Rightarrow> string \<Rightarrow> string" where
  "title_from prev [] = []"
| "title_from prev (c # cs) =
     (if is_alpha c then (if prev then to_lower c else to_upper c) # title_from True cs
      else c # title_from False cs)"

definition py_title :: "string \<Rightarrow> string" where
  "py_title s = title_from False s"

definition digit_char :: "nat \<Rightarrow> char" where
  "digit_char n = char_of (48 + n)"

fun show_nat :: "nat \<Rightarrow> string" where
  "show_nat n = (if n < 10 then [digit_char n] else show_nat (n div 10) @ [digit_char (n mod 10)])"

declare show_nat.simps [simp del]

section \<open>Layout Composer (utils/layout.py)\<close>

record position =
  pos_row :: nat
  pos_col :: nat
  pos_width :: nat
  pos_height :: nat

record component =
  comp_id :: pyval
  comp_type :: string
  comp_data :: pydict
  comp_position :: position

record grid =
  grid_columns :: nat
  grid_rows :: nat
  grid_gap :: string

record dash_section =
  sec_id :: string
  sec_title :: string
  sec_type :: string
  sec_priority :: nat
  sec_layout :: grid
  sec_components :: "component list"

record layout =
  sections :: "dash_section list"
  total_components :: nat
  layout_type :: string

text \<open>The two configuration tables set by \<^verbatim>\<open>LayoutManager.__init__\<close>.\<close>

datatype component_kind = Kpi | Chart | Recommendation

fun layout_configs :: "component_kind \<Rightarrow> nat \<times> nat" where
  "layout_configs Kpi = (3, 1)"
| "layout_configs Chart = (6, 2)"
| "layout_configs Recommendation = (12, 1)"

fun section_priorities :: "component_kind \<Rightarrow> nat" where
  "section_priorities Kpi = 1"
| "section_priorities Chart = 2"
| "section_priorities Recommendation = 3"

text \<open>
  \<^verbatim>\<open>_group_kpis_by_type\<close> and \<^verbatim>\<open>_group_charts_by_type\<close> fill a dictionary keyed by
  a field of each item, in first-seen key order, each key holding its items in input
  order. The membership test \<^verbatim>\<open>key not in grouped\<close> raises TypeError on an
  unhashable key.
\<close>

fun group_add :: "pyval \<Rightarrow> pydict \<Rightarrow> (pyval \<times> pydict list) list \<Rightarrow> (pyval \<times> pydict list) list" where
  "group_add k x [] = [(k, [x])]"
| "group_add k x ((k', xs) # g) =
     (if k' = k then (k', xs @ [x]) # g else (k', xs) # group_add k x g)"

fun group_by_field :: "string \<Rightarrow> pyval \<Rightarrow> pydict list \<Rightarrow> (pyval \<times> pydict list) list
    \<Rightarrow> py_error + (pyval \<times> pydict list) list" where
  "group_by_field field dflt [] grouped = Inr grouped"
| "group_by_field field dflt (x # xs) grouped =
     (let k = dict_get x field dflt
      in if hashable k then group_by_field field dflt xs (group_add k x grouped)
         else Inl TypeError)"

definition group_kpis_by_type :: "pydict list \<Rightarrow> py_error + (pyval \<times> pydict list) list" where
  "group_kpis_by_type kpis = group_by_field ''format'' (VStr ''number'') kpis []"

definition group_charts_by_type :: "pydict list \<Rightarrow> py_error + (pyval \<times> pydict list) list" where
  "group_charts_by_type charts = group_by_field ''type'' (VStr ''unknown'') charts []"

text \<open>\<^verbatim>\<open>max(1, n // k + (1 if n % k > 0 else 0))\<close>, the row count of a grid section.\<close>

definition grid_row_count :: "nat \<Rightarrow> nat \<Rightarrow> nat" where
  "grid_row_count n k = max 1 (n div k + (if n mod k > 0 then 1 else 0))"

definition kpi_component :: "nat \<times> pydict \<Rightarrow> py_error + component" where
  "kpi_component p =
     (case p of (i, kpi) \<Rightarrow>
        bind_err (dict_item kpi ''id'') (\<lambda>kid.
          Inr \<lparr>comp_id = kid, comp_type = ''kpi_card'', comp_data = kpi,
               comp_position = \<lparr>pos_row = i div 4, pos_col = i mod 4,
                 pos_width = fst (layout_configs Kpi), pos_height = snd (layout_configs Kpi)\<rparr>\<rparr>))"

definition create_kpi_section :: "pydict list \<Rightarrow> py_error + dash_section" where
  "create_kpi_section kpis =
     bind_err (group_kpis_by_type kpis) (\<lambda>grouped_kpis.
     bind_err (map_err kpi_component (enumerate 0 kpis)) (\<lambda>comps.
       Inr \<lparr>sec_id = ''kpi_section'', sec_title = ''Key Performance Indicators'',
            sec_type = ''kpi_grid'', sec_priority = section_priorities Kpi,
            sec_layout = \<lparr>grid_columns = 4, grid_rows = grid_row_count (length kpis) 4,
                           grid_gap = ''16px''\<rparr>,
            sec_components = comps\<rparr>))"

definition chart_component :: "nat \<times> pydict \<Rightarrow> component" where
  "chart_component p =
     (case p of (i, chart) \<Rightarrow>
        \<lparr>comp_id = VStr (''chart_'' @ show_nat i), comp_type = ''chart'', comp_data = chart,
         comp_position = \<lparr>pos_row = i div 2, pos_col = i mod 2,
           pos_width = fst (layout_configs Chart), pos_height = snd (layout_configs Chart)\<rparr>\<rparr>)"

text \<open>
  One section per chart type. The title calls \<^verbatim>\<open>chart_type.replace\<close>, which only a
  string has: any other key raises AttributeError.
\<close>

definition chart_section :: "pyval \<times> pydict list \<Rightarrow> py_error + dash_section" where
  "chart_section p =
     (case p of (chart_type, type_charts) \<Rightarrow>
        (case chart_type of
           VStr t \<Rightarrow>
             Inr \<lparr>sec_id = ''chart_section_'' @ t,
                  sec_title = py_title (py_replace (CHR ''_'') (CHR '' '') t) @ '' Charts'',
                  sec_type = ''chart_grid'', sec_priority = section_priorities Chart,
                  sec_layout = \<lparr>grid_columns = 2,
                                 grid_rows = grid_row_count (length type_charts) 2,
                                 grid_gap = ''20px''\<rparr>,
                  sec_components = map chart_component (enumerate 0 type_charts)\<rparr>
         | _ \<Rightarrow> Inl AttributeError))"

definition create_chart_sections :: "pydict list \<Rightarrow> py_error + dash_section list" where
  "create_chart_sections charts =
     bind_err (group_charts_by_type charts) (\<lambda>grouped_charts. map_err chart_section grouped_charts)"

text \<open>
  \<^verbatim>\<open>_get_severity_score\<close> looks the severity up in a dictionary with default 1; the
  lookup hashes its key first.
\<close>

definition get_severity_score :: "pyval \<Rightarrow> py_error + nat" where
  "get_severity_score severity =
     (if \<not> hashable severity then Inl TypeError
      else if severity = VStr ''high'' then Inr 3
      else if severity = VStr ''medium'' then Inr 2
      else if severity = VStr ''low'' then Inr 1
      else Inr 1)"

definition severity_key :: "pydict \<Rightarrow> py_error + nat" where
  "severity_key x = get_severity_score (dict_get x ''severity'' (VStr ''low''))"

text \<open>
  \<^verbatim>\<open>sorted(xs, key=f, reverse=True)\<close> computes every key once, in input order, then
  sorts stably: the list is reversed, sorted ascending by the stable sort, and reversed
  again. The keyed list carries each key beside its element.
\<close>

definition sorted_reverse :: "('k::linorder \<times> 'a) list \<Rightarrow> 'a list" where
  "sorted_reverse kxs = map snd (rev (sort_key fst (rev kxs)))"

definition recommendation_component :: "nat \<times> pydict \<Rightarrow> component" where
  "recommendation_component p =
     (case p of (i, recommendation) \<Rightarrow>
        \<lparr>comp_id = VStr (''recommendation_'' @ show_nat i), comp_type = ''recommendation_card'',
         comp_data = recommendation,
         comp_position = \<lparr>pos_row = i, pos_col = 0,
           pos_width = fst (layout_configs Recommendation),
           pos_height = snd (layout_configs Recommendation)\<rparr>\<rparr>)"

definition sort_recommendations :: "pydict list \<Rightarrow> py_error + pydict list" where
  "sort_recommendations recommendations =
     bind_err (map_err severity_key recommendations) (\<lambda>keys.
       Inr (sorted_reverse (zip keys recommendations)))"

definition create_recommendation_section :: "pydict list \<Rightarrow> py_error + dash_section" where
  "create_recommendation_section recommendations =
     bind_err (sort_recommendations recommendations) (\<lambda>sorted_recommendations.
       Inr \<lparr>sec_id = ''recommendation_section'',
            sec_title = ''Business Insights & Recommendations'',
            sec_type = ''recommendation_list'',
            sec_priority = section_priorities Recommendation,
            sec_layout = \<lparr>grid_columns = 1, grid_rows = length recommendations,
                           grid_gap = ''12px''\<rparr>,
            sec_components = map recommendation_component (enumerate 0 sorted_recommendations)\<rparr>)"

text \<open>
  \<^verbatim>\<open>organize_layout\<close>: the total is computed first, then the KPI section, the chart
  sections and the recommendation section are appended, each only for a non-empty input.
\<close>

definition organize_layout :: "pydict list \<Rightarrow> pydict list \<Rightarrow> pydict list \<Rightarrow> py_error + layout" where
  "organize_layout charts kpis recommendations =
     bind_err (if kpis \<noteq> [] then bind_err (create_kpi_section kpis) (\<lambda>s. Inr [s]) else Inr [])
       (\<lambda>kpi_part.
     bind_err (if charts \<noteq> [] then create_chart_sections charts else Inr [])
       (\<lambda>chart_part.
     bind_err (if recommendations \<noteq> []
               then bind_err (create_recommendation_section recommendations) (\<lambda>s. Inr [s])
               else Inr [])
       (\<lambda>recommendation_part.
         Inr \<lparr>sections = kpi_part @ chart_part @ recommendation_part,
              total_components = length charts + length kpis + length recommendations,
              layout_type = ''responsive_grid''\<rparr>)))"

text \<open>The number of components emitted across all sections of a layout.\<close>

definition emitted_components :: "layout \<Rightarrow> nat" where
  "emitted_components l = sum_list (map (\<lambda>s. length (sec_components s)) (sections l))"

text \<open>
  The inputs on which no step of \<^verbatim>\<open>organize_layout\<close> raises: every KPI has an
  \<^verbatim>\<open>id\<close> key and a hashable format, every chart's type is a string (or absent), and
  every recommendation's severity is hashable.
\<close>

definition kpi_ok :: "pydict \<Rightarrow> bool" where
  "kpi_ok kpi = (map_of kpi ''id'' \<noteq> None \<and> hashable (dict_get kpi ''format'' (VStr ''number'')))"

definition chart_ok :: "pydict \<Rightarrow> bool" where
  "chart_ok chart = (case dict_get chart ''type'' (VStr ''unknown'') of VStr t \<Rightarrow> True | _ \<Rightarrow> False)"

definition recommendation_ok :: "pydict \<Rightarrow> bool" where
  "recommendation_ok r = hashable (dict_get r ''severity'' (VStr ''low''))"

definition layout_inputs_ok :: "pydict list \<Rightarrow> pydict list \<Rightarrow> pydict list \<Rightarrow> bool" where
  "layout_inputs_ok charts kpis recommendations =
     (list_all chart_ok charts \<and> list_all kpi_ok kpis \<and> list_all recommendation_ok recommendations)"

text \<open>The number of items held by a grouping dictionary.\<close>

definition group_size :: "(pyval \<times> pydict list) list \<Rightarrow> nat" where
  "group_size g = sum_list (map (\<lambda>p. length (snd p)) g)"

text \<open>The sample components of \<^verbatim>\<open>test_layout_organization\<close> in test_setup.py.\<close>

definition sample_charts :: "pydict list" where
  "sample_charts = [[(''type'', VStr ''bar''), (''title'', VStr ''Sales Chart''),
                     (''data'', VDict []), (''config'', VDict [])]]"

definition sample_kpis :: "pydict list" where
  "sample_kpis = [[(''id'', VStr ''test_kpi''), (''title'', VStr ''Total Sales''),
                   (''value'', VNum 1000), (''format'', VStr ''number''),
                   (''description'', VStr ''Test''), (''color'', VStr ''primary'')]]"

definition sample_recommendations :: "pydict list" where
  "sample_recommendations = [[(''type'', VStr ''trend''), (''title'', VStr ''Test Recommendation''),
                   (''description'', VStr ''Test''), (''recommendation'', VStr ''Test''),
                   (''severity'', VStr ''medium''), (''data'', VDict [])]]"

subsection \<open>The layout counts every component once\<close>

lemma map_err_length: "map_err f xs = Inr ys \<Longrightarrow> length ys = length xs"
  by (induction xs arbitrary: ys) (auto split: sum.splits)

lemma group_add_size: "group_size (group_add k x g) = Suc (group_size g)"
  by (induction g) (auto simp: group_size_def)

lemma group_by_field_size:
  "group_by_field f d xs g = Inr g' \<Longrightarrow> group_size g' = group_size g + length xs"
  by (induction xs arbitrary: g) (auto simp: Let_def group_add_size split: if_splits)

lemma chart_sections_size:
  "map_err chart_section g = Inr ss \<Longrightarrow>
   sum_list (map (\<lambda>s. length (sec_components s)) ss) = group_size g"
proof (induction g arbitrary: ss)
  case Nil then show ?case by (simp add: group_size_def)
next
  case (Cons p g)
  then show ?case
    by (auto simp: group_size_def chart_section_def split: sum.splits pyval.splits prod.splits)
qed

lemma create_chart_sections_size:
  "create_chart_sections charts = Inr ss \<Longrightarrow>
   sum_list (map (\<lambda>s. length (sec_components s)) ss) = length charts"
  unfolding create_chart_sections_def group_charts_by_type_def bind_err_def
  by (auto split: sum.splits dest!: group_by_field_size chart_sections_size simp: group_size_def)

lemma create_kpi_section_size:
  "create_kpi_section kpis = Inr s \<Longrightarrow> length (sec_components s) = length kpis"
  unfolding create_kpi_section_def bind_err_def
  by (auto split: sum.splits dest!: map_err_length)

lemma sorted_reverse_length: "length (sorted_reverse kxs) = length kxs"
  by (simp add: sorted_reverse_def)

lemma sort_recommendations_length:
  "sort_recommendations rs = Inr ys \<Longrightarrow> length ys = length rs"
  unfolding sort_recommendations_def bind_err_def
  by (auto split: sum.splits dest!: map_err_length simp: sorted_reverse_length)

lemma create_recommendation_section_size:
  "create_recommendation_section rs = Inr s \<Longrightarrow> length (sec_components s) = length rs"
  unfolding create_recommendation_section_def bind_err_def
  by (auto split: sum.splits dest!: sort_recommendations_length)

lemma organize_layout_counts:
  assumes "organize_layout charts kpis recs = Inr l"
  shows "total_components l = length charts + length kpis + length recs"
    and "emitted_components l = length charts + length kpis + length recs"
  using assms
  unfolding organize_layout_def bind_err_def emitted_components_def
  by (auto split: sum.splits if_splits
      dest!: create_kpi_section_size create_chart_sections_size create_recommendation_section_size)

lemma map_err_total: "(\<And>x. x \<in> set xs \<Longrightarrow> \<exists>y. f x = Inr y) \<Longrightarrow> \<exists>ys. map_err f xs = Inr ys"
proof (induction xs)
  case Nil then show ?case by simp
next
  case (Cons x xs)
  then obtain y where "f x = Inr y" by auto
  moreover from Cons obtain ys where "map_err f xs = Inr ys" by auto
  ultimately show ?case by simp
qed

lemma group_add_keys: "fst ` set (group_add k x g) = insert k (fst ` set g)"
  by (induction g) (force split: if_splits)+

lemma group_by_field_total:
  "list_all (\<lambda>x. hashable (dict_get x f d)) xs \<Longrightarrow> \<exists>g'. group_by_field f d xs g = Inr g'"
  by (induction xs arbitrary: g) (auto simp: Let_def)

lemma group_by_field_keys:
  "group_by_field f d xs g = Inr g' \<Longrightarrow>
   fst ` set g' = fst ` set g \<union> (\<lambda>x. dict_get x f d) ` set xs"
proof (induction xs arbitrary: g)
  case Nil then show ?case by simp
next
  case (Cons x xs)
  then have h: "hashable (dict_get x f d)"
    and r: "group_by_field f d xs (group_add (dict_get x f d) x g) = Inr g'"
    by (auto simp: Let_def split: if_splits)
  from Cons.IH [OF r] show ?case by (simp add: group_add_keys)
qed

lemma chart_ok_hashable: "chart_ok c \<Longrightarrow> hashable (dict_get c ''type'' (VStr ''unknown''))"
  by (auto simp: chart_ok_def split: pyval.splits)

lemma create_kpi_section_total:
  assumes "list_all kpi_ok kpis" shows "\<exists>s. create_kpi_section kpis = Inr s"
proof -
  from assms have "list_all (\<lambda>x. hashable (dict_get x ''format'' (VStr ''number''))) kpis"
    by (simp add: list_all_iff kpi_ok_def)
  then obtain g where g: "group_kpis_by_type kpis = Inr g"
    unfolding group_kpis_by_type_def using group_by_field_total by blast
  have "\<exists>y. kpi_component p = Inr y" if "p \<in> set (enumerate 0 kpis)" for p
  proof -
    from that have "snd p \<in> set kpis" by (metis in_set_enumerate_eq nth_mem diff_zero add_0_right)
    with assms have "kpi_ok (snd p)" by (simp add: list_all_iff)
    then show ?thesis
      by (cases p) (auto simp: kpi_component_def kpi_ok_def dict_item_def bind_err_def)
  qed
  then obtain cs where "map_err kpi_component (enumerate 0 kpis) = Inr cs"
    using map_err_total by blast
  with g show ?thesis by (simp add: create_kpi_section_def bind_err_def)
qed

lemma create_chart_sections_total:
  assumes "list_all chart_ok charts" shows "\<exists>ss. create_chart_sections charts = Inr ss"
proof -
  from assms have "list_all (\<lambda>x. hashable (dict_get x ''type'' (VStr ''unknown''))) charts"
    by (simp add: list_all_iff chart_ok_hashable)
  then obtain g where g: "group_charts_by_type charts = Inr g"
    unfolding group_charts_by_type_def using group_by_field_total by blast
  then have keys: "fst ` set g = (\<lambda>x. dict_get x ''type'' (VStr ''unknown'')) ` set charts"
    unfolding group_charts_by_type_def using group_by_field_keys by fastforce
  have "\<exists>y. chart_section p = Inr y" if "p \<in> set g" for p
  proof -
    from that have "fst p \<in> fst ` set g" by simp
    with keys obtain c where "c \<in> set charts" "fst p = dict_get c ''type'' (VStr ''unknown'')"
      by auto
    with assms have "chart_ok c" "fst p = dict_get c ''type'' (VStr ''unknown'')"
      by (simp_all add: list_all_iff)
    then have "\<exists>t. fst p = VStr t"
      by (cases "dict_get c ''type'' (VStr ''unknown'')") (simp_all add: chart_ok_def)
    then show ?thesis by (cases p) (auto simp: chart_section_def)
  qed
  then obtain ss where "map_err chart_section g = Inr ss" using map_err_total by blast
  with g show ?thesis by (simp add: create_chart_sections_def bind_err_def)
qed

lemma create_recommendation_section_total:
  assumes "list_all recommendation_ok rs" shows "\<exists>s. create_recommendation_section rs = Inr s"
proof -
  have "\<exists>y. severity_key r = Inr y" if "r \<in> set rs" for r
    using that assms
    by (auto simp: list_all_iff recommendation_ok_def severity_key_def get_severity_score_def)
  then obtain ks where "map_err severity_key rs = Inr ks" using map_err_total by blast
  then show ?thesis
    by (simp add: create_recommendation_section_def sort_recommendations_def bind_err_def)
qed

lemma organize_layout_total:
  assumes "layout_inputs_ok charts kpis recs"
  shows "\<exists>l. organize_layout charts kpis recs = Inr l"
proof -
  from assms obtain s1 ss s3 where
    "create_kpi_section kpis = Inr s1" "create_chart_sections charts = Inr ss"
    "create_recommendation_section recs = Inr s3"
    unfolding layout_inputs_ok_def
    using create_kpi_section_total create_chart_sections_total create_recommendation_section_total
    by blast
  then show ?thesis by (simp add: organize_layout_def bind_err_def)
qed

text \<open>
  Claim C1. Whatever the charts, KPIs and recommendations, a layout returned by
  \<^verbatim>\<open>organize_layout\<close> has \<^verbatim>\<open>total_components\<close> equal to the sum of the three
  input lengths, and the components of all its sections add up to the same number. On
  inputs whose KPIs carry an id, whose chart types are strings and whose keyed fields are
  hashable, a layout is returned.
\<close>

theorem organize_layout_total_components:
  "(\<forall>l. organize_layout charts kpis recommendations = Inr l \<longrightarrow>
      total_components l = length charts + length kpis + length recommendations \<and>
      emitted_components l = length charts + length kpis + length recommendations) \<and>
   (layout_inputs_ok charts kpis recommendations \<longrightarrow>
      (\<exists>l. organize_layout charts kpis recommendations = Inr l))"
  using organize_layout_counts organize_layout_total by blast

theorem organize_layout_total_components_witness:
  "layout_inputs_ok sample_charts sample_kpis sample_recommendations \<and>
   (\<exists>l. organize_layout sample_charts sample_kpis sample_recommendations = Inr l \<and>
        total_components l = 3 \<and> emitted_components l = 3)"
proof -
  have ok: "layout_inputs_ok sample_charts sample_kpis sample_recommendations"
    by (simp add: layout_inputs_ok_def sample_charts_def sample_kpis_def sample_recommendations_def
        chart_ok_def kpi_ok_def recommendation_ok_def dict_get_def)
  have len: "length sample_charts + length sample_kpis + length sample_recommendations = 3"
    by (simp add: sample_charts_def sample_kpis_def sample_recommendations_def)
  from ok len organize_layout_total_components
    [of sample_charts sample_kpis sample_recommendations]
  show ?thesis by auto
qed

lemma organize_layout_missing_id: "organize_layout [] [[]] [] = Inl KeyError"
  by (simp add: organize_layout_def create_kpi_section_def group_kpis_by_type_def dict_get_def
      kpi_component_def dict_item_def bind_err_def)

subsection \<open>Recommendations are ordered by severity\<close>









lemma insort_key_cong_set:
  "f x = h x \<Longrightarrow> (\<And>y. y \<in> set xs \<Longrightarrow> f y = h y) \<Longrightarrow> insort_key f x xs = insort_key h x xs"
  by (induction xs) auto

lemma sort_key_cong_set:
  "(\<And>y. y \<in> set xs \<Longrightarrow> f y = h y) \<Longrightarrow> sort_key f xs = sort_key h xs"
proof (induction xs)
  case Nil then show ?case by simp
next
  case (Cons x xs)
  then have "sort_key f xs = sort_key h xs" by simp
  moreover have "insort_key f x (sort_key h xs) = insort_key h x (sort_key h xs)"
    using Cons.prems by (intro insort_key_cong_set) auto
  ultimately show ?case by simp
qed
















subsection \<open>Custom layouts and the random masonry heights\<close>






















section \<open>Data frames\<close>

text \<open>
  A pandas DataFrame is a list of named columns of equal length, in column order. A
  cell is missing (\<^verbatim>\<open>NaN\<close>, \<^verbatim>\<open>None\<close> and \<^verbatim>\<open>NaT\<close> alike), a number, a string
  or a timestamp in nanoseconds. Numbers are real numbers: the rounding of
  floating-point arithmetic is not modelled. A column carries its dtype: numeric
  (\<^verbatim>\<open>int64\<close>, \<^verbatim>\<open>float64\<close>), \<^verbatim>\<open>object\<close> or \<^verbatim>\<open>datetime64\<close>; cells of a numeric
  column are numbers or missing, timestamps occur in datetime columns only. Boolean
  columns are outside the model.
\<close>

datatype cell = NaN | Num real | Str string | Date int

datatype dtype = Float | Object | Datetime

record column =
  col_name :: string
  col_dtype :: dtype
  col_cells :: "cell list"

type_synonym dataframe = "column list"

definition isna :: "cell \<Rightarrow> bool" where
  "isna c = (c = NaN)"

definition dropna :: "cell list \<Rightarrow> cell list" where
  "dropna cs = filter (\<lambda>c. \<not> isna c) cs"

definition df_len :: "dataframe \<Rightarrow> nat" where
  "df_len df = (case df of [] \<Rightarrow> 0 | c # cs \<Rightarrow> length (col_cells c))"

definition df_column_names :: "dataframe \<Rightarrow> string list" where
  "df_column_names df = map col_name df"

text \<open>\<^verbatim>\<open>series.nunique()\<close>: the number of distinct values that are not missing.\<close>

definition nunique :: "cell list \<Rightarrow> nat" where
  "nunique cs = length (remdups (dropna cs))"

text \<open>
  What \<^verbatim>\<open>pd.to_numeric\<close> makes of a string depends on the number parser of pandas, which
  is a parameter of the model.
\<close>

record pandas =
  parse_number :: "string \<Rightarrow> real option"

text \<open>
  \<^verbatim>\<open>pd.to_numeric(series, errors='coerce')\<close>: a number is kept, a string is parsed or
  becomes missing. A datetime column is reinterpreted as 64-bit integers, where the
  missing timestamp is the least integer.
\<close>

definition to_numeric_cell :: "pandas \<Rightarrow> dtype \<Rightarrow> cell \<Rightarrow> cell" where
  "to_numeric_cell P dt c =
     (if dt = Datetime
      then (case c of Date t \<Rightarrow> Num (of_int t) | _ \<Rightarrow> Num (- 9223372036854775808))
      else (case c of
              Num x \<Rightarrow> Num x
            | Str s \<Rightarrow> (case parse_number P s of Some x \<Rightarrow> Num x | None \<Rightarrow> NaN)
            | _ \<Rightarrow> NaN))"

definition to_numeric :: "pandas \<Rightarrow> column \<Rightarrow> column" where
  "to_numeric P col =
     col\<lparr>col_dtype := Float, col_cells := map (to_numeric_cell P (col_dtype col)) (col_cells col)\<rparr>"

section \<open>Type Inferencer and Cleaner (services/cleaner.py)\<close>

record cleaner =
  numeric_columns :: "string list"
  categorical_columns :: "string list"
  date_columns :: "string list"
  text_columns :: "string list"

text \<open>\<^verbatim>\<open>DataCleaner.__init__\<close>.\<close>

definition new_cleaner :: cleaner where
  "new_cleaner = \<lparr>numeric_columns = [], categorical_columns = [], date_columns = [],
                  text_columns = []\<rparr>"

text \<open>
  \<^verbatim>\<open>_is_numeric_column\<close>: more than 80% of the present values convert to a number.
  The two counts are far below \<open>2^53\<close>, where the floating-point quotient compares with
  \<^verbatim>\<open>0.8\<close> as the exact quotient compares with \<open>4/5\<close>.
\<close>

definition is_numeric_column :: "pandas \<Rightarrow> column \<Rightarrow> bool" where
  "is_numeric_column P series =
     (let numeric_count = length (dropna (col_cells (to_numeric P series)));
          total_count = length (dropna (col_cells series))
      in if total_count > 0 then real numeric_count / real total_count > 8 / 10 else False)"

text \<open>\<^verbatim>\<open>keyword in column_lower\<close>: the keyword occurs as a substring.\<close>

fun is_prefix :: "string \<Rightarrow> string \<Rightarrow> bool" where
  "is_prefix [] ys = True"
| "is_prefix (x # xs) [] = False"
| "is_prefix (x # xs) (y # ys) = (x = y \<and> is_prefix xs ys)"

fun contains :: "string \<Rightarrow> string \<Rightarrow> bool" where
  "contains kw [] = (kw = [])"
| "contains kw (c # cs) = (is_prefix kw (c # cs) \<or> contains kw cs)"

definition date_keywords :: "string list" where
  "date_keywords = [''date'', ''time'', ''created'', ''updated'', ''timestamp'']"

definition has_date_keyword :: "string \<Rightarrow> bool" where
  "has_date_keyword name = list_ex (\<lambda>keyword. contains keyword (py_lower name)) date_keywords"

text \<open>
  The four date patterns are sequences of digit classes and literal characters;
  \<^verbatim>\<open>re.match\<close> matches a prefix of the value.
\<close>

datatype pattern_item = Digit | Lit char

fun re_match :: "pattern_item list \<Rightarrow> string \<Rightarrow> bool" where
  "re_match [] s = True"
| "re_match (p # ps) [] = False"
| "re_match (Digit # ps) (c # cs) = (is_digit c \<and> re_match ps cs)"
| "re_match (Lit l # ps) (c # cs) = (c = l \<and> re_match ps cs)"

definition digits :: "nat \<Rightarrow> pattern_item list" where
  "digits n = replicate n Digit"

definition date_patterns :: "pattern_item list list" where
  "date_patterns =
     [digits 4 @ [Lit (CHR ''-'')] @ digits 2 @ [Lit (CHR ''-'')] @ digits 2,
      digits 2 @ [Lit (CHR ''/'')] @ digits 2 @ [Lit (CHR ''/'')] @ digits 4,
      digits 2 @ [Lit (CHR ''-'')] @ digits 2 @ [Lit (CHR ''-'')] @ digits 4,
      digits 4 @ [Lit (CHR ''/'')] @ digits 2 @ [Lit (CHR ''/'')] @ digits 2]"

text \<open>The inner loop: the first pattern that matches ends it.\<close>

fun matches_some_pattern :: "pattern_item list list \<Rightarrow> string \<Rightarrow> bool" where
  "matches_some_pattern [] s = False"
| "matches_some_pattern (pattern # rest) s =
     (if re_match pattern s then True else matches_some_pattern rest s)"

text \<open>The outer loop over the sample, with its running \<^verbatim>\<open>date_count\<close>.\<close>

fun count_dates :: "dtype \<Rightarrow> cell list \<Rightarrow> nat \<Rightarrow> nat" where
  "count_dates dt [] date_count = date_count"
| "count_dates dt (v # vs) date_count =
     count_dates dt vs
       (if dt = Datetime then date_count + 1
        else (case v of
                Str s \<Rightarrow> if matches_some_pattern date_patterns s then date_count + 1
                         else date_count
              | _ \<Rightarrow> date_count))"

definition is_date_column :: "column \<Rightarrow> bool" where
  "is_date_column series =
     (if has_date_keyword (col_name series) then True
      else (let sample_values = take 10 (dropna (col_cells series));
                date_count = count_dates (col_dtype series) sample_values 0
            in if length sample_values > 0
               then real date_count / real (length sample_values) > 7 / 10
               else False))"

text \<open>
  \<^verbatim>\<open>_is_categorical_column\<close> divides by the length of the series: on an empty series it
  raises ZeroDivisionError.
\<close>

definition is_categorical_column :: "column \<Rightarrow> py_error + bool" where
  "is_categorical_column series =
     (if length (col_cells series) = 0 then Inl ZeroDivisionError
      else Inr (real (nunique (col_cells series)) / real (length (col_cells series)) < 5 / 10
                \<and> nunique (col_cells series) < 50))"

text \<open>
  One iteration of the loop of \<^verbatim>\<open>_detect_column_types\<close> on a column, and the loop. The
  lists are attributes of the instance: what was appended before an exception stays
  appended, so the loop returns the exception, if any, together with the instance.
\<close>

definition detect_column :: "pandas \<Rightarrow> cleaner \<Rightarrow> column \<Rightarrow> py_error + cleaner" where
  "detect_column P self series =
     (if list_all isna (col_cells series)
      then Inr (self\<lparr>text_columns := text_columns self @ [col_name series]\<rparr>)
      else if is_numeric_column P series
      then Inr (self\<lparr>numeric_columns := numeric_columns self @ [col_name series]\<rparr>)
      else if is_date_column series
      then Inr (self\<lparr>date_columns := date_columns self @ [col_name series]\<rparr>)
      else bind_err (is_categorical_column series) (\<lambda>categorical.
        if categorical
        then Inr (self\<lparr>categorical_columns := categorical_columns self @ [col_name series]\<rparr>)
        else Inr (self\<lparr>text_columns := text_columns self @ [col_name series]\<rparr>)))"

text \<open>
  \<^verbatim>\<open>df[column]\<close> is the column of that name only when the name occurs once among the
  columns of the frame. For a name that occurs more than once it is a frame, and the
  test \<^verbatim>\<open>if df[column].isna().all()\<close> raises ValueError.
\<close>

fun detect_columns :: "pandas \<Rightarrow> cleaner \<Rightarrow> dataframe \<Rightarrow> column list \<Rightarrow> py_error option \<times> cleaner" where
  "detect_columns P self df [] = (None, self)"
| "detect_columns P self df (series # rest) =
     (if length (filter (\<lambda>c. col_name c = col_name series) df) > 1 then (Some ValueError, self)
      else (case detect_column P self series of
              Inl e \<Rightarrow> (Some e, self)
            | Inr self' \<Rightarrow> detect_columns P self' df rest))"

definition detect_column_types :: "pandas \<Rightarrow> cleaner \<Rightarrow> dataframe \<Rightarrow> py_error option \<times> cleaner" where
  "detect_column_types P self df = detect_columns P self df df"

definition date_like :: "dtype \<Rightarrow> cell \<Rightarrow> bool" where
  "date_like dt v =
     (dt = Datetime \<or> (case v of Str s \<Rightarrow> list_ex (\<lambda>pattern. re_match pattern s) date_patterns
                         | _ \<Rightarrow> False))"

definition sample_values :: "column \<Rightarrow> cell list" where
  "sample_values series = take 10 (dropna (col_cells series))"

definition matching :: "column \<Rightarrow> nat" where
  "matching series = length (filter (date_like (col_dtype series)) (sample_values series))"

definition seven_of_ten :: column where
  "seven_of_ten = \<lparr>col_name = ''reference'', col_dtype = Object,
     col_cells = replicate 7 (Str ''2024-01-15'') @ replicate 3 (Str ''pending'')\<rparr>"

definition eight_of_ten :: column where
  "eight_of_ten = \<lparr>col_name = ''reference'', col_dtype = Object,
     col_cells = replicate 8 (Str ''2024-01-15'') @ replicate 2 (Str ''pending'')\<rparr>"

definition no_numbers :: pandas where
  "no_numbers = \<lparr>parse_number = (\<lambda>s. None)\<rparr>"

lemma matches_some_pattern_list_ex:
  "matches_some_pattern ps s = list_ex (\<lambda>pattern. re_match pattern s) ps"
  by (induction ps) auto

lemma count_dates_filter:
  "count_dates dt vs n = n + length (filter (date_like dt) vs)"
  by (induction vs arbitrary: n)
     (auto simp: date_like_def matches_some_pattern_list_ex split: cell.splits)

lemma is_date_column_iff:
  "is_date_column series \<longleftrightarrow>
     has_date_keyword (col_name series) \<or>
     (sample_values series \<noteq> [] \<and> 10 * matching series > 7 * length (sample_values series))"
proof -
  have r: "(real k / real n > 7 / 10) = (10 * k > 7 * n)" if "n > 0" for k n :: nat
  proof -
    have "(real k / real n > 7 / 10) = (7 * real n < 10 * real k)"
      using that by (simp add: field_simps)
    also have "\<dots> = (real (7 * n) < real (10 * k))" by simp
    also have "\<dots> = (7 * n < 10 * k)" by (simp only: of_nat_less_iff)
    finally show ?thesis .
  qed
  show ?thesis
  proof (cases "has_date_keyword (col_name series)")
    case True
    thus ?thesis by (simp add: is_date_column_def)
  next
    case False
    show ?thesis
    proof (cases "sample_values series = []")
      case True
      with False show ?thesis by (simp add: is_date_column_def sample_values_def)
    next
      case ne: False
      hence n: "length (sample_values series) > 0" by simp
      have "is_date_column series =
              (real (matching series) / real (length (sample_values series)) > 7 / 10)"
        using False n
        by (simp add: is_date_column_def Let_def sample_values_def matching_def
            count_dates_filter)
      also have "\<dots> = (10 * matching series > 7 * length (sample_values series))"
        by (rule r [OF n])
      finally show ?thesis using False ne by simp
    qed
  qed
qed

lemma sample_nonempty_not_all_missing:
  assumes "sample_values series \<noteq> []"
  shows "\<not> list_all isna (col_cells series)"
proof
  assume "list_all isna (col_cells series)"
  hence "dropna (col_cells series) = []"
    by (simp add: dropna_def list_all_iff)
  with assms show False by (simp add: sample_values_def)
qed

lemma seven_of_ten_facts:
  "\<not> has_date_keyword (col_name seven_of_ten)"
  "sample_values seven_of_ten \<noteq> []"
  "length (sample_values seven_of_ten) = 10"
  "matching seven_of_ten = 7"
  by (simp_all add: seven_of_ten_def has_date_keyword_def date_keywords_def py_lower_def
      to_lower_def is_upper_def sample_values_def dropna_def isna_def matching_def
      date_like_def date_patterns_def digits_def is_digit_def numeral_eq_Suc)

lemma eight_of_ten_facts:
  "\<not> has_date_keyword (col_name eight_of_ten)"
  "sample_values eight_of_ten \<noteq> []"
  "length (sample_values eight_of_ten) = 10"
  "matching eight_of_ten = 8"
  by (simp_all add: eight_of_ten_def has_date_keyword_def date_keywords_def py_lower_def
      to_lower_def is_upper_def sample_values_def dropna_def isna_def matching_def
      date_like_def date_patterns_def digits_def is_digit_def numeral_eq_Suc)

lemma eight_of_ten_not_numeric: "\<not> is_numeric_column no_numbers eight_of_ten"
  by (simp add: is_numeric_column_def to_numeric_def to_numeric_cell_def no_numbers_def
      eight_of_ten_def dropna_def isna_def Let_def)

text \<open>
Claim C6, as amended. For a column whose name contains no date keyword,
  \<^verbatim>\<open>_is_date_column\<close> holds if and only if the sample (the first ten values that are not
  missing) is not empty and strictly more than 70% of it is date-like: ten times the
  number of date-like values exceeds seven times the size of the sample. A value is
  date-like when the column is date-typed or the value is a string of which one of the
  four patterns matches a prefix. If moreover the column is not numeric, the loop of
  \<^verbatim>\<open>_detect_column_types\<close> appends it to the date columns under exactly that condition.
\<close>

theorem date_classification_threshold:
  assumes "\<not> has_date_keyword (col_name series)"
  shows "(is_date_column series \<longleftrightarrow>
           sample_values series \<noteq> [] \<and>
           10 * matching series > 7 * length (sample_values series)) \<and>
         (\<not> is_numeric_column P series \<longrightarrow>
           (detect_column P self series =
               Inr (self\<lparr>date_columns := date_columns self @ [col_name series]\<rparr>) \<longleftrightarrow>
            sample_values series \<noteq> [] \<and>
            10 * matching series > 7 * length (sample_values series)))"
proof -
  have d: "is_date_column series \<longleftrightarrow>
           sample_values series \<noteq> [] \<and>
           10 * matching series > 7 * length (sample_values series)"
    using assms by (simp add: is_date_column_iff)
  have "detect_column P self series =
             Inr (self\<lparr>date_columns := date_columns self @ [col_name series]\<rparr>) \<longleftrightarrow>
           sample_values series \<noteq> [] \<and>
           10 * matching series > 7 * length (sample_values series)"
    if n: "\<not> is_numeric_column P series"
  proof (cases "is_date_column series")
    case True
    with d have "sample_values series \<noteq> []" by simp
    hence "\<not> list_all isna (col_cells series)" by (rule sample_nonempty_not_all_missing)
    with True n d show ?thesis by (simp add: detect_column_def)
  next
    case False
    have neq: "self\<lparr>text_columns := text_columns self @ [col_name series]\<rparr>
               \<noteq> self\<lparr>date_columns := date_columns self @ [col_name series]\<rparr>"
         "self\<lparr>categorical_columns := categorical_columns self @ [col_name series]\<rparr>
               \<noteq> self\<lparr>date_columns := date_columns self @ [col_name series]\<rparr>"
      by (cases self, simp)+
    from False n d neq show ?thesis
      by (cases "is_categorical_column series")
         (auto simp: detect_column_def bind_err_def split: if_splits)
  qed
  with d show ?thesis by blast
qed

theorem date_classification_threshold_witness:
  "\<not> has_date_keyword (col_name eight_of_ten) \<and>
   \<not> is_numeric_column no_numbers eight_of_ten \<and>
   length (sample_values eight_of_ten) = 10 \<and> matching eight_of_ten = 8 \<and>
   is_date_column eight_of_ten \<and>
   detect_column no_numbers new_cleaner eight_of_ten =
     Inr (new_cleaner\<lparr>date_columns := date_columns new_cleaner @ [col_name eight_of_ten]\<rparr>)"
  using date_classification_threshold [of eight_of_ten no_numbers new_cleaner]
  by (simp add: eight_of_ten_facts eight_of_ten_not_numeric)

text \<open>
The claim as stated fails at exactly 70%: a column of strings with ten sampled values
  of which seven match \<^verbatim>\<open>YYYY-MM-DD\<close> is not a date column, and no parser of numbers makes
  the loop append it to the date columns.
\<close>

theorem seventy_percent_is_not_a_date:
  "col_dtype seven_of_ten = Object \<and>
   \<not> has_date_keyword (col_name seven_of_ten) \<and>
   length (sample_values seven_of_ten) = 10 \<and> matching seven_of_ten = 7 \<and>
   \<not> is_date_column seven_of_ten \<and>
   (\<forall>P self. detect_column P self seven_of_ten \<noteq>
      Inr (self\<lparr>date_columns := date_columns self @ [col_name seven_of_ten]\<rparr>))"
proof -
  have d: "\<not> is_date_column seven_of_ten"
    by (simp add: is_date_column_iff seven_of_ten_facts)
  have "detect_column P self seven_of_ten \<noteq>
      Inr (self\<lparr>date_columns := date_columns self @ [col_name seven_of_ten]\<rparr>)" for P self
  proof -
    have neq: "self\<lparr>text_columns := text_columns self @ [n]\<rparr>
               \<noteq> self\<lparr>date_columns := date_columns self @ [n]\<rparr>"
         "self\<lparr>categorical_columns := categorical_columns self @ [n]\<rparr>
               \<noteq> self\<lparr>date_columns := date_columns self @ [n]\<rparr>"
         "self\<lparr>numeric_columns := numeric_columns self @ [n]\<rparr>
               \<noteq> self\<lparr>date_columns := date_columns self @ [n]\<rparr>" for n
      by (cases self, simp)+
    from d neq show ?thesis
      by (cases "is_categorical_column seven_of_ten")
         (auto simp: detect_column_def bind_err_def split: if_splits)
  qed
  with d show ?thesis
    by (simp add: seven_of_ten_facts) (simp add: seven_of_ten_def)
qed



subsection \<open>The cleaning pipeline and the instance\<close>

text \<open>
  \<^verbatim>\<open>clean_data\<close> works on a copy of the frame: it runs the detection, which appends to
  the lists of the instance, and then the cleaning steps (\<^verbatim>\<open>_clean_numeric_columns\<close> to
  \<^verbatim>\<open>drop_duplicates\<close>), which read the lists, assign no attribute of the instance and
  return the cleaned frame or raise. The steps are a parameter here, a function of the
  instance and the frame. The result is the cleaned frame or the exception, together
  with the instance, which keeps what the detection appended either way.
\<close>

definition clean_data ::
  "pandas \<Rightarrow> (cleaner \<Rightarrow> dataframe \<Rightarrow> py_error + dataframe) \<Rightarrow> cleaner \<Rightarrow> dataframe
     \<Rightarrow> (py_error + dataframe) \<times> cleaner" where
  "clean_data P steps self df =
     (case detect_column_types P self df of
        (Some e, self') \<Rightarrow> (Inl e, self')
      | (None, self') \<Rightarrow> (steps self' df, self'))"

record column_info =
  info_numeric_columns :: "string list"
  info_categorical_columns :: "string list"
  info_date_columns :: "string list"
  info_text_columns :: "string list"
  info_total_columns :: nat
  info_total_rows :: nat

definition get_column_info :: "cleaner \<Rightarrow> dataframe \<Rightarrow> column_info" where
  "get_column_info self df =
     \<lparr>info_numeric_columns = numeric_columns self,
      info_categorical_columns = categorical_columns self,
      info_date_columns = date_columns self,
      info_text_columns = text_columns self,
      info_total_columns = length df,
      info_total_rows = df_len df\<rparr>"

subsection \<open>The column lists of an instance accumulate\<close>

datatype column_kind = NumericKind | CategoricalKind | DateKind | TextKind

text \<open>The kind that the chain of tests in \<^verbatim>\<open>_detect_column_types\<close> gives a column.\<close>

definition classify :: "pandas \<Rightarrow> column \<Rightarrow> column_kind" where
  "classify P series =
     (if list_all isna (col_cells series) then TextKind
      else if is_numeric_column P series then NumericKind
      else if is_date_column series then DateKind
      else (case is_categorical_column series of
              Inr True \<Rightarrow> CategoricalKind
            | _ \<Rightarrow> TextKind))"

fun kind_list :: "column_kind \<Rightarrow> cleaner \<Rightarrow> string list" where
  "kind_list NumericKind self = numeric_columns self"
| "kind_list CategoricalKind self = categorical_columns self"
| "kind_list DateKind self = date_columns self"
| "kind_list TextKind self = text_columns self"

definition columns_of_kind :: "pandas \<Rightarrow> column_kind \<Rightarrow> dataframe \<Rightarrow> string list" where
  "columns_of_kind P k df = map col_name (filter (\<lambda>series. classify P series = k) df)"

text \<open>The instance after \<open>n\<close> calls of \<^verbatim>\<open>clean_data\<close> on the frame.\<close>

fun repeat_clean_data ::
  "nat \<Rightarrow> pandas \<Rightarrow> (cleaner \<Rightarrow> dataframe \<Rightarrow> py_error + dataframe) \<Rightarrow> cleaner \<Rightarrow> dataframe
     \<Rightarrow> cleaner" where
  "repeat_clean_data 0 P steps self df = self"
| "repeat_clean_data (Suc n) P steps self df =
     repeat_clean_data n P steps (snd (clean_data P steps self df)) df"

definition sales_frame :: dataframe where
  "sales_frame =
     [\<lparr>col_name = ''amount'', col_dtype = Float, col_cells = [Num 10, Num 20, Num 30]\<rparr>,
      \<lparr>col_name = ''city'', col_dtype = Object,
       col_cells = [Str ''Pune'', Str ''Pune'', Str ''Pune'']\<rparr>]"

definition keep_frame :: "cleaner \<Rightarrow> dataframe \<Rightarrow> py_error + dataframe" where
  "keep_frame self df = Inr df"

lemma detect_column_kind_list:
  "\<exists>self'. detect_column P self series = Inr self' \<and>
     (\<forall>k. kind_list k self' =
            kind_list k self @ (if classify P series = k then [col_name series] else []))"
proof (cases "list_all isna (col_cells series)")
  case True
  have "kind_list k (self\<lparr>text_columns := text_columns self @ [col_name series]\<rparr>) =
        kind_list k self @ (if TextKind = k then [col_name series] else [])" for k
    by (cases k) simp_all
  with True show ?thesis by (simp add: detect_column_def classify_def)
next
  case False
  hence ne: "length (col_cells series) \<noteq> 0" by auto
  have t: "kind_list k (self\<lparr>text_columns := text_columns self @ [col_name series]\<rparr>) =
        kind_list k self @ (if TextKind = k then [col_name series] else [])" for k
    by (cases k) simp_all
  have n: "kind_list k (self\<lparr>numeric_columns := numeric_columns self @ [col_name series]\<rparr>) =
        kind_list k self @ (if NumericKind = k then [col_name series] else [])" for k
    by (cases k) simp_all
  have d: "kind_list k (self\<lparr>date_columns := date_columns self @ [col_name series]\<rparr>) =
        kind_list k self @ (if DateKind = k then [col_name series] else [])" for k
    by (cases k) simp_all
  have c: "kind_list k (self\<lparr>categorical_columns := categorical_columns self @ [col_name series]\<rparr>) =
        kind_list k self @ (if CategoricalKind = k then [col_name series] else [])" for k
    by (cases k) simp_all
  from ne obtain b where b: "is_categorical_column series = Inr b"
    by (simp add: is_categorical_column_def)
  show ?thesis
  proof (cases "is_numeric_column P series")
    case True
    with False show ?thesis by (simp add: detect_column_def classify_def n)
  next
    case nn: False
    show ?thesis
    proof (cases "is_date_column series")
      case True
      with False nn show ?thesis by (simp add: detect_column_def classify_def d)
    next
      case nd: False
      show ?thesis
      proof (cases b)
        case True
        with False nn nd b show ?thesis
          by (simp add: detect_column_def classify_def bind_err_def c)
      next
        case nb: False
        with False nn nd b show ?thesis
          by (simp add: detect_column_def classify_def bind_err_def t)
      qed
    qed
  qed
qed

lemma distinct_names_once:
  assumes "distinct (map f xs)"
  shows "length (filter (\<lambda>c. f c = v) xs) \<le> 1"
  using assms
proof (induction xs)
  case Nil
  show ?case by simp
next
  case (Cons a xs)
  show ?case
  proof (cases "f a = v")
    case True
    with Cons.prems have "v \<notin> f ` set xs" by auto
    hence "filter (\<lambda>c. f c = v) xs = []" by (auto simp: filter_empty_conv)
    with True show ?thesis by simp
  next
    case False
    with Cons show ?thesis by simp
  qed
qed

lemma detect_columns_kind_list:
  assumes "distinct (df_column_names df)"
  shows "\<exists>self'. detect_columns P self df cols = (None, self') \<and>
     (\<forall>k. kind_list k self' = kind_list k self @ columns_of_kind P k cols)"
proof (induction cols arbitrary: self)
  case Nil
  show ?case by (simp add: columns_of_kind_def)
next
  case (Cons series rest)
  from assms have once: "\<not> length (filter (\<lambda>c. col_name c = col_name series) df) > 1"
    using distinct_names_once [of col_name df "col_name series"]
    by (simp add: df_column_names_def)
  from detect_column_kind_list [of P self series]
  obtain s1 where s1: "detect_column P self series = Inr s1"
    and k1: "\<And>k. kind_list k s1 =
            kind_list k self @ (if classify P series = k then [col_name series] else [])"
    by blast
  from Cons.IH [of s1]
  obtain s2 where s2: "detect_columns P s1 df rest = (None, s2)"
    and k2: "\<And>k. kind_list k s2 = kind_list k s1 @ columns_of_kind P k rest"
    by blast
  have "kind_list k s2 = kind_list k self @ columns_of_kind P k (series # rest)" for k
    by (simp add: k1 k2 columns_of_kind_def)
  with s1 s2 once show ?case by simp
qed

lemma detect_column_types_kind_list:
  assumes "distinct (df_column_names df)"
  shows "\<exists>self'. detect_column_types P self df = (None, self') \<and>
     (\<forall>k. kind_list k self' = kind_list k self @ columns_of_kind P k df)"
  unfolding detect_column_types_def by (rule detect_columns_kind_list [OF assms])

text \<open>A frame in which a column name occurs twice makes the detection raise ValueError.\<close>

lemma detect_columns_duplicate:
  assumes "\<exists>series \<in> set cols. length (filter (\<lambda>c. col_name c = col_name series) df) > 1"
  shows "fst (detect_columns P self df cols) = Some ValueError"
  using assms
proof (induction cols arbitrary: self)
  case Nil
  thus ?case by simp
next
  case (Cons series rest)
  show ?case
  proof (cases "length (filter (\<lambda>c. col_name c = col_name series) df) > 1")
    case True
    thus ?thesis by simp
  next
    case False
    with Cons.prems
    have r: "\<exists>series \<in> set rest. length (filter (\<lambda>c. col_name c = col_name series) df) > 1"
      by auto
    from detect_column_kind_list [of P self series]
    obtain s1 where s1: "detect_column P self series = Inr s1" by blast
    from False s1 Cons.IH [OF r, of s1] show ?thesis by simp
  qed
qed

lemma duplicate_name_twice:
  assumes "\<not> distinct (map f xs)"
  shows "\<exists>x \<in> set xs. length (filter (\<lambda>c. f c = f x) xs) > 1"
  using assms
proof (induction xs)
  case Nil
  thus ?case by simp
next
  case (Cons a xs)
  show ?case
  proof (cases "f a \<in> f ` set xs")
    case True
    then obtain b where b: "b \<in> set xs" "f b = f a" by auto
    hence "filter (\<lambda>c. f c = f a) xs \<noteq> []" by (auto simp: filter_empty_conv)
    hence "length (filter (\<lambda>c. f c = f a) xs) > 0" by simp
    thus ?thesis by auto
  next
    case False
    with Cons.prems have "\<not> distinct (map f xs)" by simp
    from Cons.IH [OF this]
    obtain x where x: "x \<in> set xs" "length (filter (\<lambda>c. f c = f x) xs) > 1" by blast
    hence l: "length (filter (\<lambda>c. f c = f x) (a # xs)) > 1"
      by (cases "f a = f x") auto
    from x(1) have m: "x \<in> set (a # xs)" by simp
    from l m show ?thesis by (rule bexI)
  qed
qed

lemma detect_column_types_duplicate_names:
  assumes "\<not> distinct (df_column_names df)"
  shows "fst (detect_column_types P self df) = Some ValueError"
  unfolding detect_column_types_def
  using duplicate_name_twice [of col_name df] assms
  by (intro detect_columns_duplicate) (simp add: df_column_names_def)

lemma clean_data_kind_list:
  assumes "distinct (df_column_names df)"
  shows "kind_list k (snd (clean_data P steps self df)) =
           kind_list k self @ columns_of_kind P k df"
proof -
  from detect_column_types_kind_list [OF assms, of P self]
  obtain s where s: "detect_column_types P self df = (None, s)"
    and k: "\<And>k. kind_list k s = kind_list k self @ columns_of_kind P k df"
    by blast
  from s have "snd (clean_data P steps self df) = s" by (simp add: clean_data_def)
  with k show ?thesis by simp
qed

lemma repeat_clean_data_kind_list:
  assumes "distinct (df_column_names df)"
  shows "kind_list k (repeat_clean_data n P steps self df) =
     kind_list k self @ concat (replicate n (columns_of_kind P k df))"
  by (induction n arbitrary: self) (simp_all add: clean_data_kind_list [OF assms])

lemma count_list_concat_replicate:
  "count_list (concat (replicate n xs)) x = n * count_list xs x"
  by (induction n) (simp_all add: )

lemma count_list_columns_of_kind:
  assumes "distinct (map col_name df)" "series \<in> set df"
  shows "count_list (columns_of_kind P k df) (col_name series) =
           (if classify P series = k then 1 else 0)"
  using assms
proof (induction df)
  case Nil
  thus ?case by simp
next
  case (Cons c rest)
  show ?case
  proof (cases "series = c")
    case True
    with Cons.prems have "col_name series \<notin> col_name ` set rest" by simp
    hence "col_name series \<notin> set (columns_of_kind P k rest)"
      by (auto simp: columns_of_kind_def)
    hence "count_list (columns_of_kind P k rest) (col_name series) = 0"
      by (simp add: count_list_0_iff)
    with True show ?thesis by (simp add: columns_of_kind_def)
  next
    case False
    with Cons.prems have in_rest: "series \<in> set rest" by simp
    with Cons.prems have "col_name c \<noteq> col_name series" by auto
    moreover from Cons.IH in_rest Cons.prems
    have "count_list (columns_of_kind P k rest) (col_name series) =
           (if classify P series = k then 1 else 0)" by simp
    ultimately show ?thesis by (simp add: columns_of_kind_def)
  qed
qed

lemma new_cleaner_kind_list: "kind_list k new_cleaner = []"
  by (cases k) (simp_all add: new_cleaner_def)

lemma sales_frame_kinds:
  "classify no_numbers (sales_frame ! 0) = NumericKind"
  "classify no_numbers (sales_frame ! 1) = CategoricalKind"
  by (simp_all add: sales_frame_def classify_def isna_def is_numeric_column_def
      to_numeric_def to_numeric_cell_def no_numbers_def dropna_def Let_def
      is_date_column_def has_date_keyword_def date_keywords_def py_lower_def to_lower_def
      is_upper_def date_patterns_def digits_def is_digit_def numeral_eq_Suc
      is_categorical_column_def nunique_def)

text \<open>
Claim C10. On a frame whose column names are distinct, \<^verbatim>\<open>clean_data\<close> appends to each of
  the four lists of the instance the columns of the frame that are classified to that
  kind, in column order, and resets nothing; this holds whatever the cleaning steps do,
  also when they raise. After \<open>n\<close> calls on the same frame, starting from a fresh instance,
  each list is the \<open>n\<close>-fold repetition of the columns of its kind: every column occurs
  \<open>n\<close> times in the list of its kind and in no other list. \<^verbatim>\<open>get_column_info\<close> reports
  these accumulated lists, for whatever frame it is given; they describe a single
  dataset only for \<open>n = 1\<close>.
\<close>

theorem column_lists_accumulate:
  assumes "distinct (df_column_names df)"
  shows
  "(\<forall>k. kind_list k (snd (clean_data P steps self df)) =
          kind_list k self @ columns_of_kind P k df) \<and>
   (\<forall>k. kind_list k (repeat_clean_data n P steps new_cleaner df) =
          concat (replicate n (columns_of_kind P k df))) \<and>
   (\<forall>series \<in> set df. \<forall>k.
      count_list (kind_list k (repeat_clean_data n P steps new_cleaner df)) (col_name series) =
        (if classify P series = k then n else 0)) \<and>
   info_numeric_columns (get_column_info (repeat_clean_data n P steps new_cleaner df) df') =
     concat (replicate n (columns_of_kind P NumericKind df)) \<and>
   info_categorical_columns (get_column_info (repeat_clean_data n P steps new_cleaner df) df') =
     concat (replicate n (columns_of_kind P CategoricalKind df)) \<and>
   info_date_columns (get_column_info (repeat_clean_data n P steps new_cleaner df) df') =
     concat (replicate n (columns_of_kind P DateKind df)) \<and>
   info_text_columns (get_column_info (repeat_clean_data n P steps new_cleaner df) df') =
     concat (replicate n (columns_of_kind P TextKind df))"
proof -
  have a: "kind_list k (snd (clean_data P steps self df)) =
          kind_list k self @ columns_of_kind P k df" for k
    by (rule clean_data_kind_list [OF assms])
  have r: "kind_list k (repeat_clean_data n P steps new_cleaner df) =
          concat (replicate n (columns_of_kind P k df))" for k
    by (simp add: repeat_clean_data_kind_list [OF assms] new_cleaner_kind_list)
  have c: "count_list (kind_list k (repeat_clean_data n P steps new_cleaner df))
             (col_name series) = (if classify P series = k then n else 0)"
    if "series \<in> set df" for series k
    using that assms
    by (simp add: r count_list_concat_replicate count_list_columns_of_kind
        df_column_names_def)
  have i: "info_numeric_columns (get_column_info s df') = kind_list NumericKind s"
    "info_categorical_columns (get_column_info s df') = kind_list CategoricalKind s"
    "info_date_columns (get_column_info s df') = kind_list DateKind s"
    "info_text_columns (get_column_info s df') = kind_list TextKind s" for s
    by (simp_all add: get_column_info_def)
  show ?thesis
    using c by (simp only: i r a) blast
qed

theorem column_lists_accumulate_witness:
  "distinct (df_column_names sales_frame) \<and>
   numeric_columns (repeat_clean_data 3 no_numbers keep_frame new_cleaner sales_frame) =
     [''amount'', ''amount'', ''amount''] \<and>
   categorical_columns (repeat_clean_data 3 no_numbers keep_frame new_cleaner sales_frame) =
     [''city'', ''city'', ''city''] \<and>
   date_columns (repeat_clean_data 3 no_numbers keep_frame new_cleaner sales_frame) = [] \<and>
   text_columns (repeat_clean_data 3 no_numbers keep_frame new_cleaner sales_frame) = [] \<and>
   count_list (numeric_columns (repeat_clean_data 3 no_numbers keep_frame new_cleaner sales_frame))
     ''amount'' = 3 \<and>
   info_numeric_columns
     (get_column_info (repeat_clean_data 3 no_numbers keep_frame new_cleaner sales_frame)
        sales_frame) =
     [''amount'', ''amount'', ''amount'']"
proof -
  have k: "columns_of_kind no_numbers NumericKind sales_frame = [''amount'']"
    "columns_of_kind no_numbers CategoricalKind sales_frame = [''city'']"
    "columns_of_kind no_numbers DateKind sales_frame = []"
    "columns_of_kind no_numbers TextKind sales_frame = []"
    using sales_frame_kinds by (simp_all add: columns_of_kind_def sales_frame_def)
  have d: "distinct (df_column_names sales_frame)"
    by (simp add: df_column_names_def sales_frame_def)
  from column_lists_accumulate [OF d, of no_numbers keep_frame new_cleaner 3 sales_frame]
  have "\<forall>k. kind_list k (repeat_clean_data 3 no_numbers keep_frame new_cleaner sales_frame) =
          concat (replicate 3 (columns_of_kind no_numbers k sales_frame))"
    by blast
  from this [THEN spec, of NumericKind] this [THEN spec, of CategoricalKind]
    this [THEN spec, of DateKind] this [THEN spec, of TextKind] d
  show ?thesis
    by (simp add: k numeral_eq_Suc get_column_info_def)
qed

end
